theory Spec2Isabelle
  imports Complex_Main "HOL-Library.Signed_Division"
begin

section \<open>BigInt arithmetic of the example scripts\<close>

text \<open>
  The scripts compute on JavaScript \<^verbatim>\<open>bigint\<close> values: unbounded integers, modelled as
  \<^typ>\<open>int\<close>. The operator \<^verbatim>\<open>/\<close> on two bigints truncates towards zero and throws a
  \<^verbatim>\<open>RangeError\<close> when the divisor is \<^verbatim>\<open>0n\<close>. HOL's \<open>div\<close> rounds towards minus infinity
  and is \<open>0\<close> at divisor \<open>0\<close>, so the quotient is \<open>sdiv\<close> and the exception is a value.
\<close>

datatype js_error = RangeError

definition bigint_div :: "int \<Rightarrow> int \<Rightarrow> js_error + int" where
  "bigint_div a b = (if b = 0 then Inl RangeError else Inr (a sdiv b))"

section \<open>read-reserves: swap output estimation and price impact\<close>

text \<open>
  \<^verbatim>\<open>calculatePriceImpact(amountIn, amountOut, reserveIn, reserveOut)\<close>. The two early
  returns give the number \<^verbatim>\<open>0\<close>; otherwise the bigint \<^verbatim>\<open>impact\<close> (in basis points) is
  converted with \<^verbatim>\<open>Number(impact) / 100\<close> to a percentage. The returned number is
  represented by the exact rational \<open>impact / 100\<close>; the rounding of the double is not
  part of the model.
\<close>

definition calculatePriceImpact :: "int \<Rightarrow> int \<Rightarrow> int \<Rightarrow> int \<Rightarrow> js_error + rat" where
  "calculatePriceImpact amountIn amountOut reserveIn reserveOut =
     (if reserveIn = 0 \<or> reserveOut = 0 then Inr 0
      else case bigint_div (amountIn * reserveOut) reserveIn of
        Inl e \<Rightarrow> Inl e
      | Inr idealOut \<Rightarrow>
          if idealOut = 0 then Inr 0
          else case bigint_div ((idealOut - amountOut) * 10000) idealOut of
            Inl e \<Rightarrow> Inl e
          | Inr impact \<Rightarrow> Inr (of_int impact / 100))"

text \<open>
  The body of the estimation block of \<^verbatim>\<open>main\<close>: the constant-product formula with the
  fee taken from the input leg. \<^verbatim>\<open>testAmount\<close> is the constant \<^verbatim>\<open>1000000n\<close> in the script
  and an argument here; \<^verbatim>\<open>dynamicFee\<close> is the fee in basis points read from the pair.
\<close>

definition estimatedOut :: "int \<Rightarrow> int \<Rightarrow> int \<Rightarrow> int \<Rightarrow> js_error + int" where
  "estimatedOut testAmount dynamicFee reserve0 reserve1 =
     (let feeFactor = 10000 - dynamicFee;
          amountInWithFee = testAmount * feeFactor;
          numerator = amountInWithFee * reserve1;
          denominator = reserve0 * 10000 + amountInWithFee
      in bigint_div numerator denominator)"

text \<open>
  The whole block, guard included: nothing is estimated (\<open>None\<close>) unless both reserves
  are positive; otherwise the estimated output and the price impact printed with it,
  or the exception that one of the divisions threw.
\<close>

definition swapOutputEstimation ::
  "int \<Rightarrow> int \<Rightarrow> int \<Rightarrow> int \<Rightarrow> (js_error + int \<times> rat) option" where
  "swapOutputEstimation testAmount dynamicFee reserve0 reserve1 =
     (if reserve0 > 0 \<and> reserve1 > 0 then
        Some (case estimatedOut testAmount dynamicFee reserve0 reserve1 of
                Inl e \<Rightarrow> Inl e
              | Inr out \<Rightarrow>
                  (case calculatePriceImpact testAmount out reserve0 reserve1 of
                     Inl e \<Rightarrow> Inl e
                   | Inr impact \<Rightarrow> Inr (out, impact)))
      else None)"

section \<open>provide-liquidity: minimum amounts under a slippage tolerance\<close>

text \<open>
  \<^verbatim>\<open>(quote.amountA * BigInt(10000 - slippageBps)) / 10000n\<close>, the expression of both
  \<^verbatim>\<open>amountAMin\<close> and \<^verbatim>\<open>amountBMin\<close>; \<^verbatim>\<open>slippageBps\<close> is the constant \<^verbatim>\<open>100\<close> in the script
  and an argument here.
\<close>

definition amountMin :: "int \<Rightarrow> int \<Rightarrow> js_error + int" where
  "amountMin amount slippageBps = bigint_div (amount * (10000 - slippageBps)) 10000"

section \<open>The pair-state core, as the specification describes it\<close>

text \<open>
  The scripts reach the pair engine through a remote client only
  (\<^verbatim>\<open>pair.getFeeState\<close>, \<^verbatim>\<open>pair.getCumulativePrices\<close>, \<^verbatim>\<open>liquidity.getAddLiquidityQuote\<close>,
  \<^verbatim>\<open>swap.execute\<close>); the engine is not among the sources. The definitions of this
  section follow the specification's sections 3, 4 and 7.
\<close>

text \<open>
  Modelled from the spec: the error taxonomy (section 7) and the data model (section 3)
  of the pair engine, missing from the sources: the fee state, the flash-loan
  configuration and the pair with its reserves, share supply and oracle fields. Amounts
  and timestamps are integers.
\<close>

datatype core_error =
    ArithmeticOverflow | DivisionByZero | PairNotFound | InsufficientLiquidity
  | InsufficientInputAmount | InsufficientInitialLiquidity | SlippageExceeded
  | InvalidFeeConfig | FlashLoansDisabled | InsufficientBalance | DeadlineExceeded

record FeeState =
  currentFeeBps :: int
  feeMin :: int
  feeMax :: int
  baselineFee :: int
  emaAlpha :: int

record FlashLoanConfig =
  flashFeeBps :: int
  flashFeeFloor :: int
  locked :: bool

record Pair =
  token0 :: string
  token1 :: string
  reserve0 :: int
  reserve1 :: int
  totalSupply :: int
  price0CumulativeLast :: int
  price1CumulativeLast :: int
  blockTimestampLast :: int
  feeState :: FeeState
  flashLoanConfig :: FlashLoanConfig

text \<open>
  Modelled from the spec: \<^verbatim>\<open>mulDiv(a, b, denominator)\<close> of FixedPointMath (4.1), which is
  missing from the sources: \<open>floor(a*b/denominator)\<close>, failing with \<open>DivisionByZero\<close> at
  denominator 0. The width of the widened intermediate is not given; the integers are
  unbounded here, so \<open>ArithmeticOverflow\<close> does not arise.
\<close>

definition mulDiv :: "int \<Rightarrow> int \<Rightarrow> int \<Rightarrow> core_error + int" where
  "mulDiv a b denominator =
     (if denominator = 0 then Inl DivisionByZero else Inr ((a * b) div denominator))"

text \<open>
  Modelled from the spec: the integer square root \<open>floor(sqrt(n))\<close> used by the
  first-deposit rule of the LiquidityEngine (4.5), missing from the sources. Computed
  two bits at a time.
\<close>

function isqrt :: "nat \<Rightarrow> nat" where
  "isqrt n =
     (if n < 2 then n
      else let r = 2 * isqrt (n div 4)
           in if (r + 1) * (r + 1) \<le> n then r + 1 else r)"
  by pat_completeness auto
termination
  by (relation "measure id") auto

declare isqrt.simps [simp del]

text \<open>
  Modelled from the spec: \<^verbatim>\<open>quoteAddLiquidity\<close> of the LiquidityEngine (4.5), missing from
  the sources. On an uninitialized pool the desired \<open>amountB\<close> is taken as supplied and
  the estimate is \<open>floor(sqrt(amountA * amountB))\<close>, failing with
  \<open>InsufficientInitialLiquidity\<close> below the minimum-liquidity floor; the floor is a
  configuration constant whose value the specification leaves open, an argument here.
  On an initialized pool \<open>amountB\<close> is \<open>mulDiv(amountADesired, reserveB, reserveA)\<close> and the
  estimate the smaller of the two proportional shares. Token A is \<open>token0\<close>. The
  specification gives no rule for \<open>shareOfPool\<close>, which is left out of the quote.
\<close>

record LiquidityQuote =
  amountA :: int
  amountB :: int
  estimatedLPTokens :: int

definition quoteAddLiquidity ::
  "int \<Rightarrow> int \<Rightarrow> int \<Rightarrow> Pair \<Rightarrow> core_error + LiquidityQuote" where
  "quoteAddLiquidity minimumLiquidity amountADesired amountBDesired p =
     (if totalSupply p = 0 then
        let lp = int (isqrt (nat (amountADesired * amountBDesired)))
        in if lp < minimumLiquidity then Inl InsufficientInitialLiquidity
           else Inr \<lparr>amountA = amountADesired, amountB = amountBDesired,
                     estimatedLPTokens = lp\<rparr>
      else
        case mulDiv amountADesired (reserve1 p) (reserve0 p) of
          Inl e \<Rightarrow> Inl e
        | Inr amountBOptimal \<Rightarrow>
            (case mulDiv amountADesired (totalSupply p) (reserve0 p) of
               Inl e \<Rightarrow> Inl e
             | Inr lpA \<Rightarrow>
                 (case mulDiv amountBOptimal (totalSupply p) (reserve1 p) of
                    Inl e \<Rightarrow> Inl e
                  | Inr lpB \<Rightarrow>
                      Inr \<lparr>amountA = amountADesired, amountB = amountBOptimal,
                           estimatedLPTokens = min lpA lpB\<rparr>)))"

text \<open>
  Modelled from the spec: the DynamicFeeEngine (4.4), missing from the sources.
  Configuration fails with \<open>InvalidFeeConfig\<close> if \<open>feeMin > feeMax\<close> or \<open>emaAlpha\<close> is
  outside \<open>(0,1]\<close>; \<open>alphaOne\<close> is the fixed-point representation of 1. An update blends
  the externally metered signal into the fee and clamps the result to
  \<open>[feeMin, feeMax]\<close>. The specification fixes the clamp and leaves the blending rule
  open, requiring only that it is a pure function of the fee state and the signal: it
  is the argument \<open>blend\<close>.
\<close>

definition configureFee :: "int \<Rightarrow> FeeState \<Rightarrow> core_error + FeeState" where
  "configureFee alphaOne fs =
     (if feeMin fs > feeMax fs \<or> emaAlpha fs \<le> 0 \<or> emaAlpha fs > alphaOne
      then Inl InvalidFeeConfig else Inr fs)"

definition clampFee :: "int \<Rightarrow> int \<Rightarrow> int \<Rightarrow> int" where
  "clampFee lo hi fee = (if fee < lo then lo else if fee > hi then hi else fee)"

definition updateFee :: "(FeeState \<Rightarrow> int \<Rightarrow> int) \<Rightarrow> int \<Rightarrow> FeeState \<Rightarrow> FeeState" where
  "updateFee blend signal fs =
     fs\<lparr>currentFeeBps := clampFee (feeMin fs) (feeMax fs) (blend fs signal)\<rparr>"

fun updateFees :: "(FeeState \<Rightarrow> int \<Rightarrow> int) \<Rightarrow> int list \<Rightarrow> FeeState \<Rightarrow> FeeState" where
  "updateFees blend [] fs = fs"
| "updateFees blend (signal # signals) fs = updateFees blend signals (updateFee blend signal fs)"

text \<open>
  Modelled from the spec: one instance of the blending rule that 4.4 leaves open, an
  exponential moving average with weight \<open>emaAlpha / alphaOne\<close>. The theorems hold for
  every rule; this one serves to evaluate them on concrete inputs.
\<close>

definition emaBlend :: "int \<Rightarrow> FeeState \<Rightarrow> int \<Rightarrow> int" where
  "emaBlend alphaOne fs signal =
     (emaAlpha fs * signal + (alphaOne - emaAlpha fs) * currentFeeBps fs) div alphaOne"

text \<open>
  Modelled from the spec: the PriceOracle (4.3), missing from the sources. Before new
  reserves are applied, and only if \<open>currentTimestamp > blockTimestampLast\<close>, each
  cumulative price grows by the fixed-point price times the elapsed time and
  \<open>blockTimestampLast\<close> becomes \<open>currentTimestamp\<close>. The fixed-point representation of
  \<open>reserve1/reserve0\<close> is left open by the specification: it is the argument
  \<open>fixedPrice\<close>, applied to numerator and denominator. The accumulators are unbounded.
\<close>

definition oracleUpdate :: "(int \<Rightarrow> int \<Rightarrow> int) \<Rightarrow> int \<Rightarrow> Pair \<Rightarrow> Pair" where
  "oracleUpdate fixedPrice currentTimestamp p =
     (if currentTimestamp > blockTimestampLast p then
        let elapsedTime = currentTimestamp - blockTimestampLast p
        in p\<lparr>price0CumulativeLast :=
                 price0CumulativeLast p + fixedPrice (reserve1 p) (reserve0 p) * elapsedTime,
               price1CumulativeLast :=
                 price1CumulativeLast p + fixedPrice (reserve0 p) (reserve1 p) * elapsedTime,
               blockTimestampLast := currentTimestamp\<rparr>
      else p)"

text \<open>
  Modelled from the spec: one instance of the fixed-point price that 4.3 leaves open, the
  Q-format fraction with scale \<open>q\<close> that the specification names as an example. The
  theorems hold for every representation; this one serves to evaluate them on concrete
  inputs.
\<close>

definition qPrice :: "int \<Rightarrow> int \<Rightarrow> int \<Rightarrow> int" where
  "qPrice q num den = (if den = 0 then 0 else (num * q) div den)"

text \<open>
  Modelled from the spec: the atomic transition of the ReserveLedger (4.2) that every
  reserve-mutating call performs, missing from the sources: the oracle update on the old
  reserves, the new reserves, and the fee update. A call is given by the timestamp and
  the fee signal that the settlement layer supplies and by the reserves it leaves.
\<close>

definition mutateReserves ::
  "(int \<Rightarrow> int \<Rightarrow> int) \<Rightarrow> (FeeState \<Rightarrow> int \<Rightarrow> int) \<Rightarrow> int \<Rightarrow> int \<Rightarrow> int \<Rightarrow> int \<Rightarrow> Pair \<Rightarrow> Pair" where
  "mutateReserves fixedPrice blend currentTimestamp signal newReserve0 newReserve1 p =
     (let p1 = oracleUpdate fixedPrice currentTimestamp p
      in p1\<lparr>reserve0 := newReserve0, reserve1 := newReserve1,
             feeState := updateFee blend signal (feeState p1)\<rparr>)"

record Mutation =
  atTimestamp :: int
  feeSignal :: int
  toReserve0 :: int
  toReserve1 :: int

fun mutations ::
  "(int \<Rightarrow> int \<Rightarrow> int) \<Rightarrow> (FeeState \<Rightarrow> int \<Rightarrow> int) \<Rightarrow> Mutation list \<Rightarrow> Pair \<Rightarrow> Pair" where
  "mutations fixedPrice blend [] p = p"
| "mutations fixedPrice blend (m # ms) p =
     mutations fixedPrice blend ms
       (mutateReserves fixedPrice blend (atTimestamp m) (feeSignal m)
          (toReserve0 m) (toReserve1 m) p)"


text \<open>
  Concrete states on which the theorems below are evaluated: a fee configuration with
  bounds 10 and 100 basis points, and a pair last updated at time 100 with the given
  reserves and share supply.
\<close>

definition exampleFeeState :: FeeState where
  "exampleFeeState =
     \<lparr>currentFeeBps = 30, feeMin = 10, feeMax = 100, baselineFee = 30, emaAlpha = 2000\<rparr>"

definition examplePair :: "int \<Rightarrow> int \<Rightarrow> int \<Rightarrow> Pair" where
  "examplePair r0 r1 supply =
     \<lparr>token0 = ''A'', token1 = ''B'', reserve0 = r0, reserve1 = r1, totalSupply = supply,
      price0CumulativeLast = 0, price1CumulativeLast = 0, blockTimestampLast = 100,
      feeState = exampleFeeState,
      flashLoanConfig = \<lparr>flashFeeBps = 9, flashFeeFloor = 5, locked = False\<rparr>\<rparr>"

section \<open>Facts about the quotient\<close>

lemma sdiv_nonneg_eq_div:
  fixes a b :: int
  assumes "0 \<le> a" and "0 < b"
  shows "a sdiv b = a div b"
  using assms by (simp add: signed_divide_int_def sgn_if)

lemma bigint_div_nonneg:
  fixes a b :: int
  assumes "0 \<le> a" and "0 < b"
  shows "bigint_div a b = Inr (a div b)"
  using assms by (simp add: bigint_div_def sdiv_nonneg_eq_div)

lemma estimatedOut_floor:
  fixes amountIn feeBps reserveIn reserveOut :: int
  assumes "0 < reserveIn" and "0 \<le> reserveOut" and "0 \<le> amountIn" and "feeBps \<le> 10000"
  shows "estimatedOut amountIn feeBps reserveIn reserveOut =
           Inr ((amountIn * (10000 - feeBps) * reserveOut)
                  div (reserveIn * 10000 + amountIn * (10000 - feeBps)))"
proof -
  have f: "0 \<le> amountIn * (10000 - feeBps)"
    using assms by simp
  then have n: "0 \<le> amountIn * (10000 - feeBps) * reserveOut"
    using assms by simp
  have d: "0 < reserveIn * 10000 + amountIn * (10000 - feeBps)"
    using assms f by linarith
  show ?thesis
    unfolding estimatedOut_def Let_def by (rule bigint_div_nonneg [OF n d])
qed

lemma quot_times_le:
  fixes a b :: int
  assumes "0 < b"
  shows "(a div b) * b \<le> a"
  using pos_mod_sign [OF assms, of a] div_mult_mod_eq [of a b] by linarith

lemma le_quot:
  fixes a b q :: int
  assumes "0 < b" and "q * b \<le> a"
  shows "q \<le> a div b"
  using zdiv_mono1 [OF assms(2) assms(1)] assms(1) by simp

lemma product_aux:
  fixes a f x y out D :: int
  assumes "0 \<le> a" "0 \<le> x" "0 \<le> y" "0 \<le> f" "f \<le> 10000" "0 < D" "D = x * 10000 + a * f"
    and "out = (a * f * y) div D"
  shows "x * y \<le> (x + a) * (y - out)"
proof -
  have o: "out * D \<le> a * f * y"
    using assms(6,8) by (simp add: quot_times_le)
  have "x * y * D \<le> (x + a) * (10000 * x * y)"
  proof -
    have "a * f \<le> a * 10000" using assms by (intro mult_left_mono) simp_all
    then have "D \<le> 10000 * (x + a)" using assms by (simp add: algebra_simps)
    moreover have "0 \<le> x * y" using assms by simp
    ultimately have "x * y * D \<le> x * y * (10000 * (x + a))" by (rule mult_left_mono)
    then show ?thesis by (simp add: algebra_simps)
  qed
  also have "10000 * x * y = y * D - a * f * y" using assms by (simp add: algebra_simps)
  also have "(x + a) * (y * D - a * f * y) \<le> (x + a) * (y * D - out * D)"
    using o assms by (intro mult_left_mono) simp_all
  also have "\<dots> = (x + a) * (y - out) * D" by (simp add: algebra_simps)
  finally have "x * y * D \<le> (x + a) * (y - out) * D" .
  then show ?thesis using assms(6) by simp
qed

lemma out_le_ideal:
  fixes a f x y :: int
  assumes "0 \<le> a" "0 < x" "0 \<le> y" "0 \<le> f" "f \<le> 10000"
  shows "(a * f * y) div (x * 10000 + a * f) \<le> (a * y) div x"
proof -
  let ?D = "x * 10000 + a * f"
  let ?q = "(a * f * y) div ?D"
  have D: "0 < ?D" using assms by (simp add: add_pos_nonneg)
  have q0: "0 \<le> ?q" using assms D by (simp add: pos_imp_zdiv_nonneg_iff)
  have "?q * ?D \<le> a * f * y" using D by (rule quot_times_le)
  moreover have "?q * (a * f) \<ge> 0" using q0 assms by simp
  ultimately have "?q * (x * 10000) \<le> a * f * y" by (simp add: algebra_simps)
  also have "\<dots> \<le> a * 10000 * y" using assms by (intro mult_right_mono mult_left_mono) simp_all
  finally have "(?q * x) * 10000 \<le> (a * y) * 10000" by (simp add: algebra_simps)
  then have "?q * x \<le> a * y" by simp
  then show ?thesis using assms(2) by (intro le_quot)
qed

section \<open>Facts about the price impact and the slippage minimum\<close>

lemma div0_sdiv0:
  fixes a b :: int
  assumes "a div b = 0"
  shows "a sdiv b = 0"
proof (cases "b = 0")
  case True
  then show ?thesis by (simp add: signed_divide_int_def)
next
  case False
  with assms have "0 \<le> a \<and> a < b \<or> a \<le> 0 \<and> b < a"
    by (simp add: zdiv_eq_0_iff)
  then have "\<bar>a\<bar> < \<bar>b\<bar>" by linarith
  then have "\<bar>a\<bar> div \<bar>b\<bar> = 0" by simp
  then show ?thesis by (simp add: signed_divide_int_def)
qed

lemma cpi_zero_ideal:
  "(amountIn * reserveOut) div reserveIn = 0 \<Longrightarrow>
     calculatePriceImpact amountIn amountOut reserveIn reserveOut = Inr 0"
  by (simp add: calculatePriceImpact_def bigint_div_def div0_sdiv0)

lemma cpi_small:
  "0 < reserveIn \<and> 0 < reserveOut \<and> 0 \<le> amountIn \<and> amountIn * reserveOut < reserveIn \<longrightarrow>
     calculatePriceImpact amountIn amountOut reserveIn reserveOut = Inr 0"
proof
  assume h: "0 < reserveIn \<and> 0 < reserveOut \<and> 0 \<le> amountIn \<and> amountIn * reserveOut < reserveIn"
  then have "0 \<le> amountIn * reserveOut" by simp
  with h have "(amountIn * reserveOut) div reserveIn = 0" by simp
  then show "calculatePriceImpact amountIn amountOut reserveIn reserveOut = Inr 0"
    by (rule cpi_zero_ideal)
qed

lemma cpi_formula:
  fixes amountIn amountOut reserveIn reserveOut :: int
  assumes "0 \<le> amountIn" "0 < reserveIn" "0 < reserveOut"
    and "(amountIn * reserveOut) div reserveIn \<noteq> 0"
  shows "calculatePriceImpact amountIn amountOut reserveIn reserveOut =
     Inr (of_int ((((amountIn * reserveOut) div reserveIn - amountOut) * 10000)
            sdiv ((amountIn * reserveOut) div reserveIn)) / 100)"
proof -
  have "0 \<le> amountIn * reserveOut" using assms by simp
  then have "bigint_div (amountIn * reserveOut) reserveIn = Inr ((amountIn * reserveOut) div reserveIn)"
    using assms by (intro bigint_div_nonneg)
  then show ?thesis using assms
    by (simp add: calculatePriceImpact_def) (simp add: bigint_div_def)
qed

lemma amountMin_val:
  fixes amount s :: int
  assumes "0 \<le> amount" "s \<le> 10000"
  shows "amountMin amount s = Inr ((amount * (10000 - s)) div 10000)"
  unfolding amountMin_def using assms by (intro bigint_div_nonneg) simp_all

lemma slip_le:
  fixes amount s :: int
  assumes "0 \<le> amount" "0 \<le> s" "s \<le> 10000"
  shows "(amount * (10000 - s)) div 10000 \<le> amount"
proof -
  have "amount * (10000 - s) \<le> amount * 10000" using assms by (intro mult_left_mono) simp_all
  then have "(amount * (10000 - s)) div 10000 \<le> (amount * 10000) div 10000"
    by (rule zdiv_mono1) simp
  then show ?thesis by simp
qed

lemma slip_eq_iff:
  fixes amount s :: int
  assumes "0 \<le> amount" "0 \<le> s" "s \<le> 10000"
  shows "(amount * (10000 - s)) div 10000 = amount \<longleftrightarrow> s = 0 \<or> amount = 0"
proof
  assume e: "(amount * (10000 - s)) div 10000 = amount"
  have "((amount * (10000 - s)) div 10000) * 10000 \<le> amount * (10000 - s)"
    by (rule quot_times_le) simp
  with e have "amount * 10000 \<le> amount * (10000 - s)" by simp
  then have "amount * s \<le> 0" by (simp add: algebra_simps)
  moreover have "0 \<le> amount * s" using assms by simp
  ultimately have "amount * s = 0" by simp
  then show "s = 0 \<or> amount = 0" by auto
next
  assume "s = 0 \<or> amount = 0"
  then show "(amount * (10000 - s)) div 10000 = amount" by auto
qed

lemma impact_range:
  fixes ideal out :: int
  assumes "0 < ideal" "0 \<le> out" "out \<le> ideal"
  shows "0 \<le> ((ideal - out) * 10000) div ideal \<and> ((ideal - out) * 10000) div ideal \<le> 10000"
proof
  show "0 \<le> ((ideal - out) * 10000) div ideal"
    using assms by (simp add: pos_imp_zdiv_nonneg_iff)
  have "(ideal - out) * 10000 \<le> 10000 * ideal" using assms by simp
  then have "((ideal - out) * 10000) div ideal \<le> (10000 * ideal) div ideal"
    using assms(1) by (intro zdiv_mono1)
  then show "((ideal - out) * 10000) div ideal \<le> 10000" using assms(1) by simp
qed

section \<open>Facts about the integer square root\<close>

lemma isqrt_small: "n < 2 \<Longrightarrow> isqrt n = n"
  by (subst isqrt.simps) simp

lemma isqrt_step:
  assumes "\<not> n < 2"
  shows "isqrt n =
     (if (2 * isqrt (n div 4) + 1) * (2 * isqrt (n div 4) + 1) \<le> n
      then 2 * isqrt (n div 4) + 1 else 2 * isqrt (n div 4))"
proof -
  have "isqrt n = (if n < 2 then n
      else let r = 2 * isqrt (n div 4)
           in if (r + 1) * (r + 1) \<le> n then r + 1 else r)"
    by (rule isqrt.simps)
  also have "\<dots> = (let r = 2 * isqrt (n div 4)
           in if (r + 1) * (r + 1) \<le> n then r + 1 else r)"
    using assms by (simp only: if_False)
  finally show ?thesis unfolding Let_def .
qed

lemma isqrt_bounds: "isqrt n * isqrt n \<le> n \<and> n < (isqrt n + 1) * (isqrt n + 1)"
proof (induction n rule: isqrt.induct)
  case (1 n)
  show ?case
  proof (cases "n < 2")
    case True
    then have "isqrt n = n" by (rule isqrt_small)
    moreover from True have "n = 0 \<or> n = 1" by linarith
    ultimately show ?thesis by auto
  next
    case False
    define s where "s = isqrt (n div 4)"
    from False "1.IH" have ih: "s * s \<le> n div 4" "n div 4 < (s + 1) * (s + 1)"
      by (simp_all add: s_def)
    have lo: "(2 * s) * (2 * s) \<le> n"
    proof -
      have "4 * (s * s) \<le> 4 * (n div 4)" using ih(1) by simp
      also have "\<dots> \<le> n" by simp
      finally show ?thesis by (simp add: algebra_simps)
    qed
    have hi: "n < (2 * s + 2) * (2 * s + 2)"
    proof -
      have "n div 4 + 1 \<le> (s + 1) * (s + 1)" using ih(2) by simp
      then have "4 * (n div 4 + 1) \<le> 4 * ((s + 1) * (s + 1))" by simp
      moreover have "n < 4 * (n div 4 + 1)" by simp
      ultimately have "n < 4 * ((s + 1) * (s + 1))" by linarith
      then show ?thesis by (simp add: algebra_simps)
    qed
    have unf: "isqrt n = (if (2 * s + 1) * (2 * s + 1) \<le> n then 2 * s + 1 else 2 * s)"
      unfolding s_def using False by (rule isqrt_step)
    show ?thesis
    proof (cases "(2 * s + 1) * (2 * s + 1) \<le> n")
      case True
      with unf have "isqrt n = 2 * s + 1" by simp
      with True hi show ?thesis by (simp add: algebra_simps)
    next
      case False
      with unf have "isqrt n = 2 * s" by simp
      with False lo show ?thesis by (simp add: algebra_simps)
    qed
  qed
qed

lemma isqrt_unique:
  assumes "m * m \<le> n" and "n < (m + 1) * (m + 1)"
  shows "isqrt n = m"
proof (rule ccontr)
  assume ne: "isqrt n \<noteq> m"
  let ?s = "isqrt n"
  have b: "?s * ?s \<le> n" "n < (?s + 1) * (?s + 1)" using isqrt_bounds [of n] by simp_all
  from ne consider "?s + 1 \<le> m" | "m + 1 \<le> ?s" by linarith
  then show False
  proof cases
    case 1
    then have "(?s + 1) * (?s + 1) \<le> m * m" by (intro mult_le_mono)
    with b(2) assms(1) show False by linarith
  next
    case 2
    then have "(m + 1) * (m + 1) \<le> ?s * ?s" by (intro mult_le_mono)
    with b(1) assms(2) show False by linarith
  qed
qed

lemma isqrt_floor_sqrt: "int (isqrt n) = \<lfloor>sqrt (real n)\<rfloor>"
proof -
  let ?s = "isqrt n"
  have b: "?s * ?s \<le> n" "n < (?s + 1) * (?s + 1)" using isqrt_bounds [of n] by simp_all
  have "(real ?s)\<^sup>2 = real (?s * ?s)" by (simp add: power2_eq_square)
  also have "\<dots> \<le> real n" using b(1) by (simp only: of_nat_le_iff)
  finally have lo: "real ?s \<le> sqrt (real n)" by (rule real_le_rsqrt)
  have "real n < real ((?s + 1) * (?s + 1))" using b(2) by (simp only: of_nat_less_iff)
  also have "\<dots> = (real ?s + 1)\<^sup>2" by (simp add: power2_eq_square algebra_simps)
  finally have hi: "sqrt (real n) < real ?s + 1" by (intro real_less_lsqrt) simp_all
  have "\<lfloor>sqrt (real n)\<rfloor> = int ?s"
    by (rule floor_unique) (use lo hi in simp_all)
  then show ?thesis by simp
qed

lemma isqrt_example: "isqrt 400000000000000 = 20000000"
  by (rule isqrt_unique) simp_all

section \<open>Facts about the fee, the oracle and the swap of the pair engine\<close>

lemma clampFee_bounds: "lo \<le> hi \<Longrightarrow> lo \<le> clampFee lo hi x \<and> clampFee lo hi x \<le> hi"
  by (simp add: clampFee_def)

lemma updateFee_fields:
  "feeMin (updateFee blend signal fs) = feeMin fs"
  "feeMax (updateFee blend signal fs) = feeMax fs"
  by (simp_all add: updateFee_def)

lemma updateFees_fields:
  "feeMin (updateFees blend signals fs) = feeMin fs \<and> feeMax (updateFees blend signals fs) = feeMax fs"
  by (induction signals arbitrary: fs) (simp_all add: updateFee_fields)

lemma updateFees_snoc:
  "updateFees blend (signals @ [signal]) fs = updateFee blend signal (updateFees blend signals fs)"
  by (induction signals arbitrary: fs) simp_all

lemma updateFees_bounds:
  assumes "feeMin fs \<le> feeMax fs" and "signals \<noteq> []"
  shows "feeMin fs \<le> currentFeeBps (updateFees blend signals fs)
       \<and> currentFeeBps (updateFees blend signals fs) \<le> feeMax fs"
proof -
  from assms(2) obtain ss s where sp: "signals = ss @ [s]"
    by (metis rev_exhaust)
  let ?fs = "updateFees blend ss fs"
  have f: "feeMin ?fs = feeMin fs" "feeMax ?fs = feeMax fs"
    using updateFees_fields [of blend ss fs] by simp_all
  have "currentFeeBps (updateFee blend s ?fs) = clampFee (feeMin fs) (feeMax fs) (blend ?fs s)"
    by (simp add: updateFee_def f)
  then show ?thesis
    using clampFee_bounds [OF assms(1), of "blend ?fs s"] by (simp add: sp updateFees_snoc)
qed

lemma oracle_ts_mono: "blockTimestampLast p \<le> blockTimestampLast (oracleUpdate fixedPrice t p)"
  by (simp add: oracleUpdate_def Let_def)

lemma mutate_ts: "blockTimestampLast (mutateReserves fixedPrice blend t sig r0 r1 p) = blockTimestampLast (oracleUpdate fixedPrice t p)"
  by (simp add: mutateReserves_def Let_def)

lemma mutate_ts_mono: "blockTimestampLast p \<le> blockTimestampLast (mutateReserves fixedPrice blend t sig r0 r1 p)"
  by (simp add: mutate_ts oracle_ts_mono)

lemma mutations_ts_mono: "blockTimestampLast p \<le> blockTimestampLast (mutations fixedPrice blend ms p)"
proof (induction ms arbitrary: p)
  case Nil
  show ?case by simp
next
  case (Cons m ms)
  have "blockTimestampLast p \<le> blockTimestampLast (mutateReserves fixedPrice blend (atTimestamp m) (feeSignal m) (toReserve0 m) (toReserve1 m) p)"
    by (rule mutate_ts_mono)
  also have "\<dots> \<le> blockTimestampLast (mutations fixedPrice blend (m # ms) p)"
    using Cons.IH by simp
  finally show ?case .
qed

lemma mutate_not_later:
  assumes "t \<le> blockTimestampLast p"
  shows "price0CumulativeLast (mutateReserves fixedPrice blend t sig r0 r1 p) = price0CumulativeLast p"
    "price1CumulativeLast (mutateReserves fixedPrice blend t sig r0 r1 p) = price1CumulativeLast p"
    "blockTimestampLast (mutateReserves fixedPrice blend t sig r0 r1 p) = blockTimestampLast p"
  using assms by (simp_all add: mutateReserves_def oracleUpdate_def Let_def)

lemma mutate_later:
  assumes "blockTimestampLast p < t"
  shows "price0CumulativeLast (mutateReserves fixedPrice blend t sig r0 r1 p) =
           price0CumulativeLast p + fixedPrice (reserve1 p) (reserve0 p) * (t - blockTimestampLast p)"
    "price1CumulativeLast (mutateReserves fixedPrice blend t sig r0 r1 p) =
           price1CumulativeLast p + fixedPrice (reserve0 p) (reserve1 p) * (t - blockTimestampLast p)"
    "blockTimestampLast (mutateReserves fixedPrice blend t sig r0 r1 p) = t"
  using assms by (simp_all add: mutateReserves_def oracleUpdate_def Let_def)

lemma mutate_after_ts: "t \<le> blockTimestampLast (mutateReserves fixedPrice blend t sig r0 r1 p)"
  by (cases "blockTimestampLast p < t") (simp_all add: mutate_later mutate_not_later)




section \<open>The range of the price impact\<close>

lemma calculatePriceImpact_range:
  fixes amountIn out reserveIn reserveOut :: int
  assumes "0 \<le> amountIn" "0 < reserveIn" "0 < reserveOut"
    and "0 \<le> out" "out \<le> (amountIn * reserveOut) div reserveIn"
  shows "\<exists>impact. calculatePriceImpact amountIn out reserveIn reserveOut = Inr impact
           \<and> 0 \<le> impact \<and> impact \<le> 100"
proof (cases "(amountIn * reserveOut) div reserveIn = 0")
  case True
  then have "calculatePriceImpact amountIn out reserveIn reserveOut = Inr 0"
    by (rule cpi_zero_ideal)
  then show ?thesis by simp
next
  case False
  let ?ideal = "(amountIn * reserveOut) div reserveIn"
  let ?bps = "((?ideal - out) * 10000) div ?ideal"
  have pos: "0 < ?ideal" using assms(4,5) False by linarith
  have "0 \<le> (?ideal - out) * 10000" using assms(5) by simp
  then have q: "((?ideal - out) * 10000) sdiv ?ideal = ?bps"
    using pos by (rule sdiv_nonneg_eq_div)
  have c: "calculatePriceImpact amountIn out reserveIn reserveOut = Inr (of_int ?bps / 100)"
    using cpi_formula [OF assms(1-3) False, of out] by (simp only: q)
  have r: "0 \<le> ?bps \<and> ?bps \<le> 10000"
    using pos assms(4,5) by (rule impact_range)
  have "(0::rat) \<le> of_int ?bps / 100" using r by simp
  moreover have "of_int ?bps / 100 \<le> (100::rat)"
  proof -
    have "(of_int ?bps :: rat) \<le> of_int 10000" using r by (simp only: of_int_le_iff)
    then show ?thesis by simp
  qed
  ultimately show ?thesis using c by blast
qed

section \<open>Swap output\<close>

text \<open>
  C1. With both reserves positive, a fee between 0 and 10000 basis points and a positive
  input, the estimated output is the floor of
  \<open>amountIn * (10000 - feeBps) * reserveOut / (reserveIn * 10000 + amountIn * (10000 - feeBps))\<close>.
  For reserves \<open>(10000000000, 10000000000)\<close>, fee 30 and input 1000000 the input after
  fee is \<open>1000000 * 9970\<close> and the output is the floor of the quotient, 996900.
\<close>

theorem estimatedOut_formula:
  fixes amountIn feeBps reserveIn reserveOut :: int
  assumes "0 < reserveIn" and "0 < reserveOut"
    and "0 \<le> feeBps" and "feeBps \<le> 10000" and "0 < amountIn"
  shows "estimatedOut amountIn feeBps reserveIn reserveOut =
           Inr ((amountIn * (10000 - feeBps) * reserveOut)
                  div (reserveIn * 10000 + amountIn * (10000 - feeBps)))
         \<and> estimatedOut 1000000 30 10000000000 10000000000 =
             Inr ((1000000 * 9970 * 10000000000) div (10000000000 * 10000 + 1000000 * 9970))
         \<and> estimatedOut 1000000 30 10000000000 10000000000 = Inr 996900"
proof -
  have "estimatedOut amountIn feeBps reserveIn reserveOut =
           Inr ((amountIn * (10000 - feeBps) * reserveOut)
                  div (reserveIn * 10000 + amountIn * (10000 - feeBps)))"
    using assms by (intro estimatedOut_floor) simp_all
  moreover have "estimatedOut 1000000 30 10000000000 10000000000 =
      Inr ((1000000 * 9970 * 10000000000) div (10000000000 * 10000 + 1000000 * 9970))"
    by (subst estimatedOut_floor) simp_all
  moreover have "estimatedOut 1000000 30 10000000000 10000000000 = Inr 996900"
    by (subst estimatedOut_floor) simp_all
  ultimately show ?thesis by simp
qed

theorem estimatedOut_formula_witness:
  "estimatedOut 500 25 2000 3000 = Inr 598 \<and> (0::int) < 2000 \<and> (0::int) < 3000
     \<and> (0::int) \<le> 25 \<and> (25::int) \<le> 10000 \<and> (0::int) < 500"
  using estimatedOut_formula [of 2000 3000 25 500] by simp

text \<open>
  C2. For a swap with positive reserves, a positive input and a fee between 0 and 10000
  basis points, the estimate returns the floor \<open>amountOut\<close> of the constant-product
  formula, and the product of the reserves after the swap,
  \<open>(reserveIn + amountIn) * (reserveOut - amountOut)\<close>, is at least
  \<open>reserveIn * reserveOut\<close>.
\<close>

theorem product_never_decreases:
  fixes amountIn feeBps reserveIn reserveOut :: int
  assumes "0 < reserveIn" and "0 < reserveOut"
    and "0 \<le> feeBps" and "feeBps \<le> 10000" and "0 < amountIn"
  shows "\<exists>amountOut.
           estimatedOut amountIn feeBps reserveIn reserveOut = Inr amountOut
         \<and> amountOut = (amountIn * (10000 - feeBps) * reserveOut)
                          div (reserveIn * 10000 + amountIn * (10000 - feeBps))
         \<and> reserveIn * reserveOut \<le> (reserveIn + amountIn) * (reserveOut - amountOut)"
proof -
  let ?D = "reserveIn * 10000 + amountIn * (10000 - feeBps)"
  let ?out = "(amountIn * (10000 - feeBps) * reserveOut) div ?D"
  have e: "estimatedOut amountIn feeBps reserveIn reserveOut = Inr ?out"
    using assms by (intro estimatedOut_floor) simp_all
  have "0 \<le> amountIn * (10000 - feeBps)"
    using assms by simp
  then have D: "0 < ?D"
    using assms by linarith
  have "reserveIn * reserveOut \<le> (reserveIn + amountIn) * (reserveOut - ?out)"
    using assms D by (intro product_aux [where f = "10000 - feeBps" and D = ?D]) simp_all
  with e show ?thesis by blast
qed

theorem product_never_decreases_witness:
  "estimatedOut 500 25 2000 3000 = Inr 598
     \<and> (2000::int) * 3000 \<le> (2000 + 500) * (3000 - 598)
     \<and> (0::int) < 2000 \<and> (0::int) < 3000 \<and> (0::int) \<le> 25 \<and> (25::int) \<le> 10000
     \<and> (0::int) < 500"
  using product_never_decreases [of 2000 3000 25 500] by simp

section \<open>Minimum amount under slippage\<close>

text \<open>
  C3. For the positive output amount of a quote and a slippage tolerance between 0 and
  10000 basis points, the minimum \<open>floor(amountOut * (10000 - slippageBps) / 10000)\<close>
  never exceeds the amount, and it equals the amount only when the tolerance is 0 (and
  then it does).
\<close>

theorem amountMin_le_amount_equal_only_at_zero_slippage:
  fixes amountOut slippageBps :: int
  assumes "0 < amountOut" and "0 \<le> slippageBps" and "slippageBps \<le> 10000"
  shows "\<exists>amountOutMin.
           amountMin amountOut slippageBps = Inr amountOutMin
         \<and> amountOutMin = (amountOut * (10000 - slippageBps)) div 10000
         \<and> amountOutMin \<le> amountOut
         \<and> (amountOutMin = amountOut \<longleftrightarrow> slippageBps = 0)"
proof -
  have nn: "0 \<le> amountOut" using assms(1) by simp
  have "(amountOut * (10000 - slippageBps)) div 10000 = amountOut \<longleftrightarrow> slippageBps = 0"
    using slip_eq_iff [OF nn assms(2,3)] assms(1) by simp
  then show ?thesis
    using amountMin_val [OF nn assms(3)] slip_le [OF nn assms(2,3)] by blast
qed

theorem amountMin_le_amount_equal_only_at_zero_slippage_witness:
  "amountMin 1000 100 = Inr 990 \<and> (990::int) \<le> 1000 \<and> (990::int) \<noteq> 1000
     \<and> (0::int) < 1000 \<and> (0::int) \<le> 100 \<and> (100::int) \<le> 10000"
  using amountMin_le_amount_equal_only_at_zero_slippage [of 1000 100] by simp

section \<open>Price impact\<close>

text \<open>
  C4. The price impact is zero whenever either reserve is zero. For a non-negative
  input and positive reserves, with \<open>idealOut = floor(amountIn * reserveOut / reserveIn)\<close>
  not zero, the impact in basis points is \<open>((idealOut - amountOut) * 10000) / idealOut\<close>,
  returned as a percentage (divided by 100). The quotient is the bigint quotient; it is
  the floor whenever \<open>amountOut\<close> does not exceed \<open>idealOut\<close>, as holds for every output
  of the swap formula.
\<close>

theorem calculatePriceImpact_formula:
  fixes amountIn amountOut reserveIn reserveOut :: int
  shows "(reserveIn = 0 \<or> reserveOut = 0 \<longrightarrow>
            calculatePriceImpact amountIn amountOut reserveIn reserveOut = Inr 0)
       \<and> (let idealOut = (amountIn * reserveOut) div reserveIn in
            (0 \<le> amountIn \<and> 0 < reserveIn \<and> 0 < reserveOut \<and> idealOut \<noteq> 0 \<longrightarrow>
               calculatePriceImpact amountIn amountOut reserveIn reserveOut =
                 Inr (of_int (((idealOut - amountOut) * 10000) sdiv idealOut) / 100))
          \<and> (0 \<le> amountIn \<and> 0 < reserveIn \<and> 0 < reserveOut \<and> idealOut \<noteq> 0
               \<and> amountOut \<le> idealOut \<longrightarrow>
               calculatePriceImpact amountIn amountOut reserveIn reserveOut =
                 Inr (of_int (((idealOut - amountOut) * 10000) div idealOut) / 100)))"
proof -
  let ?ideal = "(amountIn * reserveOut) div reserveIn"
  have a: "reserveIn = 0 \<or> reserveOut = 0 \<longrightarrow>
            calculatePriceImpact amountIn amountOut reserveIn reserveOut = Inr 0"
    by (auto simp: calculatePriceImpact_def)
  have b: "calculatePriceImpact amountIn amountOut reserveIn reserveOut =
             Inr (of_int (((?ideal - amountOut) * 10000) sdiv ?ideal) / 100)"
    if "0 \<le> amountIn \<and> 0 < reserveIn \<and> 0 < reserveOut \<and> ?ideal \<noteq> 0"
    using that by (intro cpi_formula) simp_all
  have c: "calculatePriceImpact amountIn amountOut reserveIn reserveOut =
             Inr (of_int (((?ideal - amountOut) * 10000) div ?ideal) / 100)"
    if h: "0 \<le> amountIn \<and> 0 < reserveIn \<and> 0 < reserveOut \<and> ?ideal \<noteq> 0 \<and> amountOut \<le> ?ideal"
  proof -
    have "0 \<le> amountIn * reserveOut" using h by simp
    then have "0 \<le> ?ideal" using h by (simp add: pos_imp_zdiv_nonneg_iff)
    with h have pos: "0 < ?ideal" by linarith
    have "0 \<le> (?ideal - amountOut) * 10000" using h by simp
    then have "((?ideal - amountOut) * 10000) sdiv ?ideal = ((?ideal - amountOut) * 10000) div ?ideal"
      using pos by (rule sdiv_nonneg_eq_div)
    with b h show ?thesis by simp
  qed
  from a b c show ?thesis unfolding Let_def by blast
qed

theorem calculatePriceImpact_formula_witness:
  "calculatePriceImpact 1000000 996900 0 10000000000 = Inr 0
     \<and> calculatePriceImpact 1000000 996900 10000000000 10000000000 = Inr (31 / 100)
     \<and> (1000000 * 10000000000) div 10000000000 = (1000000::int)
     \<and> (996900::int) \<le> 1000000"
  using calculatePriceImpact_formula [of 0 10000000000 1000000 996900]
    calculatePriceImpact_formula [of 10000000000 10000000000 1000000 996900]
  by simp

text \<open>
  C9. The price impact is 0 whenever the ideal output
  \<open>floor(amountIn * reserveOut / reserveIn)\<close> is 0, in particular when both reserves are
  positive and \<open>amountIn * reserveOut < reserveIn\<close>.
\<close>

theorem calculatePriceImpact_zero_ideal:
  fixes amountIn amountOut reserveIn reserveOut :: int
  shows "((amountIn * reserveOut) div reserveIn = 0 \<longrightarrow>
            calculatePriceImpact amountIn amountOut reserveIn reserveOut = Inr 0)
       \<and> (0 < reserveIn \<and> 0 < reserveOut \<and> 0 \<le> amountIn \<and> amountIn * reserveOut < reserveIn \<longrightarrow>
            calculatePriceImpact amountIn amountOut reserveIn reserveOut = Inr 0)"
  using cpi_zero_ideal [of amountIn reserveOut reserveIn amountOut]
    cpi_small [of reserveIn reserveOut amountIn amountOut] by blast

theorem calculatePriceImpact_zero_ideal_witness:
  "calculatePriceImpact 3 1 10 2 = Inr 0 \<and> (3 * 2) div 10 = (0::int)
     \<and> (0::int) < 10 \<and> (0::int) < 2 \<and> (0::int) \<le> 3 \<and> (3::int) * 2 < 10"
  using calculatePriceImpact_zero_ideal [of 3 2 10 1] by simp

text \<open>
  C10. With positive reserves, a positive input and a fee between 0 and 10000 basis
  points, the estimated output never exceeds the ideal output
  \<open>floor(amountIn * reserveOut / reserveIn)\<close>, and the price impact computed for the
  estimate, as the estimation block does, lies between 0 and 100.
\<close>

theorem estimate_le_ideal_impact_range:
  fixes amountIn feeBps reserveIn reserveOut :: int
  assumes "0 < reserveIn" and "0 < reserveOut"
    and "0 \<le> feeBps" and "feeBps \<le> 10000" and "0 < amountIn"
  shows "\<exists>out impact.
           estimatedOut amountIn feeBps reserveIn reserveOut = Inr out
         \<and> out = (amountIn * (10000 - feeBps) * reserveOut)
                    div (reserveIn * 10000 + amountIn * (10000 - feeBps))
         \<and> out \<le> (amountIn * reserveOut) div reserveIn
         \<and> calculatePriceImpact amountIn out reserveIn reserveOut = Inr impact
         \<and> 0 \<le> impact \<and> impact \<le> 100
         \<and> swapOutputEstimation amountIn feeBps reserveIn reserveOut = Some (Inr (out, impact))"
proof -
  let ?f = "10000 - feeBps"
  let ?D = "reserveIn * 10000 + amountIn * ?f"
  let ?out = "(amountIn * ?f * reserveOut) div ?D"
  have e: "estimatedOut amountIn feeBps reserveIn reserveOut = Inr ?out"
    using assms by (intro estimatedOut_floor) simp_all
  have f: "0 \<le> amountIn * ?f" using assms by simp
  then have D: "0 < ?D" using assms by linarith
  have "0 \<le> amountIn * ?f * reserveOut" using f assms by simp
  then have o0: "0 \<le> ?out" using D by (simp add: pos_imp_zdiv_nonneg_iff)
  have le: "?out \<le> (amountIn * reserveOut) div reserveIn"
    using assms by (intro out_le_ideal) simp_all
  obtain impact where i: "calculatePriceImpact amountIn ?out reserveIn reserveOut = Inr impact"
      "0 \<le> impact" "impact \<le> 100"
    using calculatePriceImpact_range [OF _ assms(1,2) o0 le] assms(5) by auto
  have "swapOutputEstimation amountIn feeBps reserveIn reserveOut = Some (Inr (?out, impact))"
    using assms(1,2) by (simp add: swapOutputEstimation_def e i(1))
  with e le i show ?thesis by blast
qed

theorem estimate_le_ideal_impact_range_witness:
  "swapOutputEstimation 1000000 30 10000000000 10000000000 = Some (Inr (996900, 31 / 100))
     \<and> (996900::int) \<le> (1000000 * 10000000000) div 10000000000
     \<and> (0::rat) \<le> 31 / 100 \<and> (31 / 100 :: rat) \<le> 100
     \<and> (0::int) < 10000000000 \<and> (0::int) \<le> 30 \<and> (30::int) \<le> 10000 \<and> (0::int) < 1000000"
  using estimate_le_ideal_impact_range [of 10000000000 10000000000 30 1000000]
  by (simp add: swapOutputEstimation_def estimatedOut_def calculatePriceImpact_def
      bigint_div_def signed_divide_int_def)

section \<open>First deposit\<close>

text \<open>
  C5. On an uninitialized pool (\<open>totalSupply = 0\<close>) the liquidity quote for non-negative
  amounts has \<open>estimatedLPTokens = floor(sqrt(amountA * amountB))\<close>, unless that number is
  below the minimum-liquidity floor, where the quote fails. A first deposit of
  \<open>(10000000, 40000000)\<close> yields 20000000 for every floor up to that number.
\<close>

theorem quoteAddLiquidity_first_deposit:
  fixes amountADesired amountBDesired minimumLiquidity :: int
  assumes "totalSupply p = 0" and "0 \<le> amountADesired" and "0 \<le> amountBDesired"
  shows "quoteAddLiquidity minimumLiquidity amountADesired amountBDesired p =
           (if \<lfloor>sqrt (of_int (amountADesired * amountBDesired))\<rfloor> < minimumLiquidity
            then Inl InsufficientInitialLiquidity
            else Inr \<lparr>amountA = amountADesired, amountB = amountBDesired,
                      estimatedLPTokens = \<lfloor>sqrt (of_int (amountADesired * amountBDesired))\<rfloor>\<rparr>)
       \<and> (minimumLiquidity \<le> 20000000 \<longrightarrow>
            quoteAddLiquidity minimumLiquidity 10000000 40000000 p =
              Inr \<lparr>amountA = 10000000, amountB = 40000000, estimatedLPTokens = 20000000\<rparr>)"
proof -
  have nn: "0 \<le> amountADesired * amountBDesired" using assms by simp
  have "int (isqrt (nat (amountADesired * amountBDesired)))
          = \<lfloor>sqrt (real (nat (amountADesired * amountBDesired)))\<rfloor>"
    by (rule isqrt_floor_sqrt)
  also have "real (nat (amountADesired * amountBDesired)) = of_int (amountADesired * amountBDesired)"
    using nn by simp
  finally have r: "int (isqrt (nat (amountADesired * amountBDesired)))
          = \<lfloor>sqrt (of_int (amountADesired * amountBDesired))\<rfloor>" .
  have g: "quoteAddLiquidity minimumLiquidity amountADesired amountBDesired p =
           (if \<lfloor>sqrt (of_int (amountADesired * amountBDesired))\<rfloor> < minimumLiquidity
            then Inl InsufficientInitialLiquidity
            else Inr \<lparr>amountA = amountADesired, amountB = amountBDesired,
                      estimatedLPTokens = \<lfloor>sqrt (of_int (amountADesired * amountBDesired))\<rfloor>\<rparr>)"
    using assms(1) by (simp add: quoteAddLiquidity_def Let_def r)
  have x: "quoteAddLiquidity minimumLiquidity 10000000 40000000 p =
              Inr \<lparr>amountA = 10000000, amountB = 40000000, estimatedLPTokens = 20000000\<rparr>"
    if "minimumLiquidity \<le> 20000000"
    using assms(1) that by (simp add: quoteAddLiquidity_def Let_def isqrt_example)
  from g x show ?thesis by blast
qed

theorem quoteAddLiquidity_first_deposit_witness:
  "quoteAddLiquidity 1000 10000000 40000000 (examplePair 0 0 0) =
     Inr \<lparr>amountA = 10000000, amountB = 40000000, estimatedLPTokens = 20000000\<rparr>
   \<and> totalSupply (examplePair 0 0 0) = 0 \<and> (0::int) \<le> 10000000 \<and> (0::int) \<le> 40000000
   \<and> (1000::int) \<le> 20000000"
proof -
  have t: "totalSupply (examplePair 0 0 0) = 0" by (simp add: examplePair_def)
  show ?thesis
    using quoteAddLiquidity_first_deposit [OF t, of 10000000 40000000 1000] t by simp
qed

section \<open>Fee bounds\<close>

text \<open>
  C6. From every accepted fee configuration, after every update of every non-empty
  sequence of signals and for every blending rule, the current fee lies between \<open>feeMin\<close>
  and \<open>feeMax\<close>, and the bounds themselves are unchanged.
\<close>

theorem fee_clamped_after_every_update:
  assumes "configureFee alphaOne fs = Inr fs0" and "signals \<noteq> []"
  shows "feeMin fs0 \<le> currentFeeBps (updateFees blend signals fs0)
       \<and> currentFeeBps (updateFees blend signals fs0) \<le> feeMax fs0
       \<and> feeMin (updateFees blend signals fs0) = feeMin fs0
       \<and> feeMax (updateFees blend signals fs0) = feeMax fs0"
proof -
  from assms(1) have "feeMin fs0 \<le> feeMax fs0"
    by (auto simp: configureFee_def split: if_splits)
  then show ?thesis
    using updateFees_bounds [OF _ assms(2), of fs0 blend] updateFees_fields [of blend signals fs0]
    by simp
qed

theorem fee_clamped_after_every_update_witness:
  "configureFee 10000 exampleFeeState = Inr exampleFeeState
   \<and> [100000, - 100000] \<noteq> ([]::int list)
   \<and> currentFeeBps (updateFees (emaBlend 10000) [100000] exampleFeeState) = 100
   \<and> currentFeeBps (updateFees (emaBlend 10000) [100000, - 100000] exampleFeeState) = 10
   \<and> feeMin exampleFeeState = 10 \<and> feeMax exampleFeeState = 100"
proof -
  have c: "configureFee 10000 exampleFeeState = Inr exampleFeeState"
    by (simp add: configureFee_def exampleFeeState_def)
  have n: "[100000, - 100000] \<noteq> ([]::int list)" by simp
  have "currentFeeBps (updateFees (emaBlend 10000) [100000] exampleFeeState) = 100"
    by (simp add: updateFee_def emaBlend_def clampFee_def exampleFeeState_def)
  moreover have "currentFeeBps (updateFees (emaBlend 10000) [100000, - 100000] exampleFeeState) = 10"
    by (simp add: updateFee_def emaBlend_def clampFee_def exampleFeeState_def)
  moreover have "feeMin exampleFeeState = 10 \<and> feeMax exampleFeeState = 100"
    by (simp add: exampleFeeState_def)
  ultimately show ?thesis
    using fee_clamped_after_every_update [OF c n, of "emaBlend 10000"] c by simp
qed

section \<open>Oracle timestamps\<close>

text \<open>
  C7. Over every sequence of reserve-mutating calls \<open>blockTimestampLast\<close> does not
  decrease. A call at a timestamp not later than \<open>blockTimestampLast\<close> leaves both
  cumulative prices and the timestamp unchanged; a call at a later timestamp adds the
  fixed-point price times the elapsed time and moves the timestamp; and a second call
  at the same timestamp leaves what the first one produced.
\<close>

theorem oracle_accumulates_once_per_timestamp:
  shows "blockTimestampLast p \<le> blockTimestampLast (mutations fixedPrice blend ms p)
   \<and> (let p1 = mutateReserves fixedPrice blend t sig r0 r1 p;
           p2 = mutateReserves fixedPrice blend t sig' r0' r1' p1
       in (t \<le> blockTimestampLast p \<longrightarrow>
             price0CumulativeLast p1 = price0CumulativeLast p
           \<and> price1CumulativeLast p1 = price1CumulativeLast p
           \<and> blockTimestampLast p1 = blockTimestampLast p)
        \<and> (blockTimestampLast p < t \<longrightarrow>
             price0CumulativeLast p1 =
               price0CumulativeLast p + fixedPrice (reserve1 p) (reserve0 p) * (t - blockTimestampLast p)
           \<and> price1CumulativeLast p1 =
               price1CumulativeLast p + fixedPrice (reserve0 p) (reserve1 p) * (t - blockTimestampLast p)
           \<and> blockTimestampLast p1 = t)
        \<and> price0CumulativeLast p2 = price0CumulativeLast p1
        \<and> price1CumulativeLast p2 = price1CumulativeLast p1
        \<and> blockTimestampLast p2 = blockTimestampLast p1)"
proof -
  let ?p1 = "mutateReserves fixedPrice blend t sig r0 r1 p"
  have "t \<le> blockTimestampLast ?p1" by (rule mutate_after_ts)
  then have "price0CumulativeLast (mutateReserves fixedPrice blend t sig' r0' r1' ?p1) = price0CumulativeLast ?p1"
    "price1CumulativeLast (mutateReserves fixedPrice blend t sig' r0' r1' ?p1) = price1CumulativeLast ?p1"
    "blockTimestampLast (mutateReserves fixedPrice blend t sig' r0' r1' ?p1) = blockTimestampLast ?p1"
    by (rule mutate_not_later)+
  then show ?thesis
    unfolding Let_def
    using mutations_ts_mono [of p fixedPrice blend ms]
      mutate_not_later [of t p fixedPrice blend sig r0 r1]
      mutate_later [of p t fixedPrice blend sig r0 r1]
    by blast
qed

theorem oracle_accumulates_once_per_timestamp_witness:
  "price0CumulativeLast (mutations (qPrice 1024) (emaBlend 10000)
       [\<lparr>atTimestamp = 110, feeSignal = 40, toReserve0 = 1100, toReserve1 = 1820\<rparr>]
       (examplePair 1000 2000 500)) = 20480
   \<and> price0CumulativeLast (mutations (qPrice 1024) (emaBlend 10000)
       [\<lparr>atTimestamp = 110, feeSignal = 40, toReserve0 = 1100, toReserve1 = 1820\<rparr>,
        \<lparr>atTimestamp = 110, feeSignal = 50, toReserve0 = 1200, toReserve1 = 1670\<rparr>]
       (examplePair 1000 2000 500)) = 20480
   \<and> blockTimestampLast (examplePair 1000 2000 500) < 110
   \<and> (110::int) \<le> blockTimestampLast
        (mutateReserves (qPrice 1024) (emaBlend 10000) 110 40 1100 1820 (examplePair 1000 2000 500))"
  using oracle_accumulates_once_per_timestamp
      [of "examplePair 1000 2000 500" "qPrice 1024" "emaBlend 10000"
          "[\<lparr>atTimestamp = 110, feeSignal = 40, toReserve0 = 1100, toReserve1 = 1820\<rparr>]"
          110 40 1100 1820 50 1200 1670]
    oracle_accumulates_once_per_timestamp
      [of "mutateReserves (qPrice 1024) (emaBlend 10000) 110 40 1100 1820 (examplePair 1000 2000 500)"
          "qPrice 1024" "emaBlend 10000" "[]" 110 50 1200 1670 50 1200 1670]
  by (simp add: Let_def examplePair_def qPrice_def mutateReserves_def oracleUpdate_def)

section \<open>Swap failures\<close>



end
